theory Spec2Isabelle
  imports Complex_Main
begin

text \<open>
  The stock ledger of an inventory application: a web admin client and a mobile client
  over one hosted database with the tables \<open>items\<close>, \<open>history\<close> and \<open>tasks\<close>. The
  model covers the history API of the web admin (\<open>addHistory\<close>, \<open>updateHistory\<close>,
  \<open>updateItem\<close>), the edit form of its new history page (\<open>handleEdit\<close>,
  \<open>handleEditSubmit\<close>), and the deduction and task functions of the mobile API
  (\<open>deductItem\<close>, \<open>deductTaskItems\<close>, \<open>updateTaskCheckStatus\<close>, \<open>canMarkTaskDone\<close>,
  \<open>doneTask\<close>). Every function takes the store and returns its outcome, an error or a
  value, together with the store it leaves behind, so that a throw after a write keeps
  the write.
\<close>

section \<open>JavaScript values\<close>

text \<open>
  The clients are written in JavaScript. Numbers are modelled as exact rationals plus
  \<open>NaN\<close> (rounding, infinities and the negative zero of IEEE doubles are outside the
  model). A string is a list of characters with code points below 256; a string holding
  a character beyond that range cannot be written in the model. A property that is absent
  from an object reads as \<open>JUndefined\<close>.
\<close>

datatype jsnum = Fin rat | NaN

datatype jsval = JUndefined | JNull | JNum jsnum | JStr string

text \<open>
  The two conversions of the language runtime between strings and numbers are not code of
  the repository; they are parameters of the model.
\<close>

record runtime =
  StringToNumber :: "string \<Rightarrow> jsnum"
  NumberToString :: "jsnum \<Rightarrow> string"

fun js_Number :: "runtime \<Rightarrow> jsval \<Rightarrow> jsnum" where
  "js_Number rt JUndefined = NaN"
| "js_Number rt JNull = Fin 0"
| "js_Number rt (JNum n) = n"
| "js_Number rt (JStr s) = StringToNumber rt s"

fun js_String :: "runtime \<Rightarrow> jsval \<Rightarrow> string" where
  "js_String rt JUndefined = ''undefined''"
| "js_String rt JNull = ''null''"
| "js_String rt (JNum n) = NumberToString rt n"
| "js_String rt (JStr s) = s"

fun num_truthy :: "jsnum \<Rightarrow> bool" where
  "num_truthy NaN = False"
| "num_truthy (Fin r) = (r \<noteq> 0)"

fun truthy :: "jsval \<Rightarrow> bool" where
  "truthy JUndefined = False"
| "truthy JNull = False"
| "truthy (JNum n) = num_truthy n"
| "truthy (JStr s) = (s \<noteq> [])"

text \<open>\<open>a || b\<close> and \<open>a ?? b\<close>.\<close>

definition js_or :: "jsval \<Rightarrow> jsval \<Rightarrow> jsval" where
  "js_or a b = (if truthy a then a else b)"

fun nullish :: "jsval \<Rightarrow> jsval \<Rightarrow> jsval" where
  "nullish JUndefined b = b"
| "nullish JNull b = b"
| "nullish a b = a"

text \<open>Comparison and arithmetic on numbers: every comparison with \<open>NaN\<close> is false.\<close>

fun num_gt :: "jsnum \<Rightarrow> jsnum \<Rightarrow> bool" where
  "num_gt (Fin a) (Fin b) = (a > b)"
| "num_gt _ _ = False"

fun num_lt :: "jsnum \<Rightarrow> jsnum \<Rightarrow> bool" where
  "num_lt (Fin a) (Fin b) = (a < b)"
| "num_lt _ _ = False"

fun num_sub :: "jsnum \<Rightarrow> jsnum \<Rightarrow> jsnum" where
  "num_sub (Fin a) (Fin b) = Fin (a - b)"
| "num_sub _ _ = NaN"

fun num_add :: "jsnum \<Rightarrow> jsnum \<Rightarrow> jsnum" where
  "num_add (Fin a) (Fin b) = Fin (a + b)"
| "num_add _ _ = NaN"

fun Math_max :: "jsnum \<Rightarrow> jsnum \<Rightarrow> jsnum" where
  "Math_max (Fin a) (Fin b) = Fin (max a b)"
| "Math_max _ _ = NaN"

fun isInteger :: "jsnum \<Rightarrow> bool" where
  "isInteger NaN = False"
| "isInteger (Fin r) = (r = of_int \<lfloor>r\<rfloor>)"

text \<open>
  \<open>String.prototype.trim\<close> strips white space and line terminators at both ends. Below
  code point 256 these are the tab, the line feed, the vertical tab, the form feed, the
  carriage return, the space and the no-break space.
\<close>

definition is_space :: "char \<Rightarrow> bool" where
  "is_space c =
     (c \<in> set [CHR '' '', CHR 0x09, CHR 0x0A, CHR 0x0B, CHR 0x0C, CHR 0x0D, CHR 0xA0])"

definition trim :: "string \<Rightarrow> string" where
  "trim s = rev (dropWhile is_space (rev (dropWhile is_space s)))"

section \<open>The store\<close>

text \<open>
  The three tables of the hosted database. A history row receives its \<open>id\<close> from the
  database on insert; \<open>next_id\<close> is that sequence. Columns a writer leaves out of an
  insert are \<open>None\<close>. Calls to the store are taken to succeed unless the row a
  \<open>.single()\<close> read asks for is absent. Timestamps are instants of one clock, as natural
  numbers; the tables' keys are the domains of the maps. Columns that none of the modelled
  functions reads or writes (an item's category, the creation dates, a task's title and
  lines) are left out.
\<close>

record item =
  i_name :: string
  i_stock :: jsnum
  i_updated_at :: nat

record hrow =
  h_id :: nat
  h_employee_id :: string
  h_employee_name :: string
  h_item_id :: string
  h_item_name :: string
  h_action :: string
  h_qty :: jsnum
  h_stock_before :: "jsnum option"
  h_stock_after :: "jsnum option"
  h_timestamp :: nat

datatype idlist = IdArray "string list" | IdCsv "string option"

record task =
  t_read_by :: "string option"
  t_checked_by :: "string option"
  t_done_by :: "string option"
  t_deducted_by_list :: idlist
  t_assigned_at :: nat
  t_done_at :: "nat option"
  t_status :: string

record store =
  items :: "string \<rightharpoonup> item"
  history :: "hrow list"
  next_id :: nat
  tasks :: "string \<rightharpoonup> task"

text \<open>
  The errors thrown: \<open>INVALID_QTY\<close> and \<open>ACTION_EMPTY\<close> by \<open>updateHistory\<close>;
  \<open>MISSING_FIELDS\<close> is \<open>Missing required fields for history\<close> of \<open>addHistory\<close>;
  \<open>ROW_NOT_FOUND\<close> and \<open>TASK_NOT_FOUND\<close> are the store's error for a \<open>.single()\<close> read
  without its row (and \<open>Task not found.\<close> of \<open>deductTaskItems\<close>); \<open>ITEM_NOT_FOUND\<close> is
  the error of \<open>getItemById\<close>; \<open>ITEM_UPDATE_FAILED\<close> is what the edit form reports when
  the history was updated and the item was not; \<open>NOT_ALLOWED\<close> is the refusal of
  \<open>doneTask\<close>; \<open>NO_ITEMS\<close> is \<open>No items specified for deduction.\<close>
\<close>

datatype error =
    INVALID_QTY
  | ACTION_EMPTY
  | MISSING_FIELDS
  | ROW_NOT_FOUND
  | ITEM_NOT_FOUND string
  | ITEM_UPDATE_FAILED
  | NOT_ALLOWED
  | NO_ITEMS
  | TASK_NOT_FOUND

section \<open>Web admin API: history\<close>

text \<open>
  \<open>updateHistory\<close> checks the qty and the action of its argument, then patches the rows of
  that \<open>id\<close> with the action and, when the argument has one, the \<open>stock_after\<close>.
\<close>

record history_patch =
  p_id :: nat
  p_qty :: jsval
  p_action :: jsval
  p_stock_after :: jsval

definition patch_row :: "string \<Rightarrow> jsnum option \<Rightarrow> hrow \<Rightarrow> hrow" where
  "patch_row action stockAfter r =
     (case stockAfter of
        None \<Rightarrow> r\<lparr>h_action := action\<rparr>
      | Some v \<Rightarrow> r\<lparr>h_action := action, h_stock_after := Some v\<rparr>)"

definition updateHistory :: "runtime \<Rightarrow> history_patch \<Rightarrow> store \<Rightarrow> (error + unit) \<times> store" where
  "updateHistory rt h s =
     (let qty = js_Number rt (p_qty h);
          action = (if p_action h \<noteq> JNull \<and> p_action h \<noteq> JUndefined
                    then trim (js_String rt (p_action h)) else []);
          stockAfter = (if p_stock_after h \<noteq> JUndefined
                        then Some (js_Number rt (p_stock_after h)) else None)
      in if \<not> isInteger qty then (Inl INVALID_QTY, s)
         else if action = [] then (Inl ACTION_EMPTY, s)
         else (Inr (),
               s\<lparr>history := map (\<lambda>r. if h_id r = p_id h then patch_row action stockAfter r else r)
                                 (history s)\<rparr>))"

record user =
  u_id :: jsval
  u_name :: string

record history_payload =
  a_item_id :: jsval
  a_item_name :: jsval
  a_action :: jsval
  a_qty :: jsval
  a_stock_before :: jsval
  a_stock_after :: jsval
  a_employee_id :: jsval
  a_employee_name :: jsval

text \<open>
  \<open>addHistory\<close>: \<open>currentUser\<close> is what \<open>resolveCurrentUser\<close> read from the session
  (\<open>None\<close> for \<open>null\<close>), \<open>now\<close> the clock.
\<close>

definition finalQty :: "runtime \<Rightarrow> history_payload \<Rightarrow> jsnum" where
  "finalQty rt p =
     (if a_action p = JStr ''deduct'' then js_Number rt (a_qty p)
      else js_Number rt (js_or (a_stock_after p) (JNum (Fin 0))))"

definition finalAction :: "runtime \<Rightarrow> history_payload \<Rightarrow> jsval" where
  "finalAction rt p =
     (let stockBefore = js_Number rt (js_or (a_stock_before p) (JNum (Fin 0)));
          stockAfter = js_Number rt (js_or (a_stock_after p) (JNum (Fin 0)))
      in if a_action p \<noteq> JStr ''deduct'' then
           (if num_gt stockAfter stockBefore then JStr ''add''
            else if num_lt stockAfter stockBefore then JStr ''min''
            else a_action p)
         else a_action p)"

definition historyData :: "runtime \<Rightarrow> user option \<Rightarrow> nat \<Rightarrow> history_payload \<Rightarrow> nat \<Rightarrow> hrow" where
  "historyData rt currentUser now p new_id =
     \<lparr> h_id = new_id,
       h_employee_id = js_String rt
         (js_or (nullish (case currentUser of None \<Rightarrow> JUndefined | Some u \<Rightarrow> u_id u)
                         (a_employee_id p)) (JStr ''SYSTEM'')),
       h_employee_name = js_String rt
         (js_or (nullish (case currentUser of None \<Rightarrow> JUndefined | Some u \<Rightarrow> JStr (u_name u))
                         (a_employee_name p)) (JStr ''Unknown'')),
       h_item_id = js_String rt (a_item_id p),
       h_item_name = js_String rt (js_or (a_item_name p) (JStr ''Unknown Item'')),
       h_action = js_String rt (finalAction rt p),
       h_qty = finalQty rt p,
       h_stock_before = Some (js_Number rt (js_or (a_stock_before p) (JNum (Fin 0)))),
       h_stock_after = Some (js_Number rt (js_or (a_stock_after p) (JNum (Fin 0)))),
       h_timestamp = now \<rparr>"

definition addHistory ::
  "runtime \<Rightarrow> user option \<Rightarrow> nat \<Rightarrow> history_payload \<Rightarrow> store \<Rightarrow> (error + hrow) \<times> store" where
  "addHistory rt currentUser now p s =
     (if \<not> truthy (a_item_id p) \<or> \<not> truthy (a_action p) \<or> \<not> truthy (a_qty p)
      then (Inl MISSING_FIELDS, s)
      else (let r = historyData rt currentUser now p (next_id s)
            in (Inr r, s\<lparr>history := history s @ [r], next_id := Suc (next_id s)\<rparr>)))"

section \<open>Web admin API: items\<close>

text \<open>
  \<open>updateItem\<close> writes the properties its argument carries, and \<open>updated_at\<close>, to the
  row of that \<open>id\<close>; \<open>.single()\<close> fails when there is no such row.
\<close>

record item_patch =
  ip_id :: string
  ip_name :: "string option"
  ip_stock :: "jsnum option"

definition apply_item_patch :: "nat \<Rightarrow> item_patch \<Rightarrow> item \<Rightarrow> item" where
  "apply_item_patch now ip it =
     it\<lparr> i_name := (case ip_name ip of None \<Rightarrow> i_name it | Some n \<Rightarrow> n),
         i_stock := (case ip_stock ip of None \<Rightarrow> i_stock it | Some v \<Rightarrow> v),
         i_updated_at := now \<rparr>"

definition updateItem :: "nat \<Rightarrow> item_patch \<Rightarrow> store \<Rightarrow> (error + item) \<times> store" where
  "updateItem now ip s =
     (case items s (ip_id ip) of
        None \<Rightarrow> (Inl ROW_NOT_FOUND, s)
      | Some it \<Rightarrow>
          (let it' = apply_item_patch now ip it
           in (Inr it', s\<lparr>items := (items s)(ip_id ip \<mapsto> it')\<rparr>)))"

section \<open>Web admin: the history page's edit form\<close>

record edit_form =
  f_qty :: jsval
  f_action :: jsval

text \<open>
  \<open>handleEdit\<close> opens the form on an entry: the value to edit, and the item's current
  stock as read from the items table (\<open>0\<close> when the item is gone).
\<close>

definition handleEdit :: "hrow \<Rightarrow> store \<Rightarrow> edit_form \<times> jsnum" where
  "handleEdit entry s =
     (let valueToEdit =
            (if h_action entry = ''deduct'' then h_qty entry
             else if h_action entry = ''add'' then
               Math_max (Fin 0) (num_sub (case h_stock_after entry of None \<Rightarrow> Fin 0 | Some v \<Rightarrow> v)
                                         (case h_stock_before entry of None \<Rightarrow> Fin 0 | Some v \<Rightarrow> v))
             else if h_action entry = ''min'' then
               Math_max (Fin 0) (num_sub (case h_stock_before entry of None \<Rightarrow> Fin 0 | Some v \<Rightarrow> v)
                                         (case h_stock_after entry of None \<Rightarrow> Fin 0 | Some v \<Rightarrow> v))
             else Fin 0)
      in (\<lparr>f_qty = JNum valueToEdit, f_action = JStr (h_action entry)\<rparr>,
          (case items s (h_item_id entry) of None \<Rightarrow> Fin 0 | Some it \<Rightarrow> i_stock it)))"

text \<open>
  \<open>handleEditSubmit\<close> of the new history page. The result is the error the page shows,
  if any, and the store after the calls that were made.
\<close>

definition handleEditSubmit ::
  "runtime \<Rightarrow> nat \<Rightarrow> hrow \<Rightarrow> edit_form \<Rightarrow> jsnum \<Rightarrow> store \<Rightarrow> error option \<times> store" where
  "handleEditSubmit rt now editEntry editForm currentItemStock s =
     (let newValue = js_Number rt (f_qty editForm) in
      if h_action editEntry = ''deduct'' then
        (case updateHistory rt
                \<lparr>p_id = h_id editEntry, p_qty = JNum newValue, p_action = f_action editForm,
                 p_stock_after = JUndefined\<rparr> s of
           (Inl e, s1) \<Rightarrow> (Some e, s1)
         | (Inr _, s1) \<Rightarrow>
             (let qtyDifference = num_sub (h_qty editEntry) newValue;
                  newItemStock = num_add currentItemStock qtyDifference
              in case updateItem now
                      \<lparr>ip_id = h_item_id editEntry, ip_name = None, ip_stock = Some newItemStock\<rparr> s1 of
                   (Inl _, s2) \<Rightarrow> (Some ITEM_UPDATE_FAILED, s2)
                 | (Inr _, s2) \<Rightarrow> (None, s2)))
      else
        (case updateHistory rt
                \<lparr>p_id = h_id editEntry, p_qty = JUndefined, p_action = f_action editForm,
                 p_stock_after = JNum newValue\<rparr> s of
           (Inl e, s1) \<Rightarrow> (Some e, s1)
         | (Inr _, s1) \<Rightarrow> (None, s1)))"

section \<open>Mobile API: helpers\<close>

fun split_comma :: "string \<Rightarrow> string list" where
  "split_comma [] = [[]]"
| "split_comma (c # cs) =
     (if c = CHR '','' then [] # split_comma cs
      else (case split_comma cs of [] \<Rightarrow> [[c]] | w # ws \<Rightarrow> (c # w) # ws))"

fun join_comma :: "string list \<Rightarrow> string" where
  "join_comma [] = []"
| "join_comma [x] = x"
| "join_comma (x # y # ys) = x @ CHR '','' # join_comma (y # ys)"

definition csvToArray :: "string option \<Rightarrow> string list" where
  "csvToArray v =
     (case v of
        None \<Rightarrow> []
      | Some w \<Rightarrow> if w = [] then [] else filter (\<lambda>x. x \<noteq> []) (map trim (split_comma w)))"

definition arrayToCsv :: "string list \<Rightarrow> string" where
  "arrayToCsv arr = join_comma arr"

definition getItemById :: "store \<Rightarrow> string \<Rightarrow> error + item" where
  "getItemById s itemId =
     (case items s itemId of None \<Rightarrow> Inl (ITEM_NOT_FOUND itemId) | Some it \<Rightarrow> Inr it)"

definition updateItemStock :: "string \<Rightarrow> jsnum \<Rightarrow> store \<Rightarrow> store" where
  "updateItemStock itemId newStock s =
     (case items s itemId of
        None \<Rightarrow> s
      | Some it \<Rightarrow> s\<lparr>items := (items s)(itemId \<mapsto> it\<lparr>i_stock := newStock\<rparr>)\<rparr>)"

text \<open>
  \<open>addHistoryEntry\<close> inserts the seven columns of its payload; it has no
  \<open>stock_before\<close> and no \<open>stock_after\<close>.
\<close>

definition addHistoryEntry ::
  "nat \<Rightarrow> string \<Rightarrow> string \<Rightarrow> string \<Rightarrow> string \<Rightarrow> jsnum \<Rightarrow> string \<Rightarrow> store \<Rightarrow> store" where
  "addHistoryEntry now employee_id employee_name item_id item_name qty action s =
     s\<lparr>history := history s @
          [\<lparr> h_id = next_id s, h_employee_id = employee_id, h_employee_name = employee_name,
             h_item_id = item_id, h_item_name = item_name, h_action = action, h_qty = qty,
             h_stock_before = None, h_stock_after = None, h_timestamp = now \<rparr>],
       next_id := Suc (next_id s)\<rparr>"

section \<open>Mobile API: deduction\<close>

text \<open>
  The notification mails of both flows touch no table and swallow their own errors; they
  are left out.
\<close>

record deduct_line =
  d_itemId :: string
  d_qty :: jsnum

fun deductItem ::
  "nat \<Rightarrow> string \<Rightarrow> string \<Rightarrow> deduct_line list \<Rightarrow> store \<Rightarrow> (error + unit) \<times> store" where
  "deductItem now employeeId employeeName [] s = (Inr (), s)"
| "deductItem now employeeId employeeName (item # rest) s =
     (case getItemById s (d_itemId item) of
        Inl e \<Rightarrow> (Inl e, s)
      | Inr data \<Rightarrow>
          (let newStock = Math_max (num_sub (i_stock data) (d_qty item)) (Fin 0);
               s1 = updateItemStock (d_itemId item) newStock s;
               s2 = addHistoryEntry now employeeId employeeName (d_itemId item) (i_name data)
                      (d_qty item) ''deduct'' s1
           in deductItem now employeeId employeeName rest s2))"

record task_line =
  tl_item_id :: string
  tl_required_qty :: jsnum

fun deductTaskLoop :: "nat \<Rightarrow> string \<Rightarrow> string \<Rightarrow> task_line list \<Rightarrow> store \<Rightarrow> store" where
  "deductTaskLoop now employeeId employeeName [] s = s"
| "deductTaskLoop now employeeId employeeName (item # rest) s =
     (let currentItemData = items s (tl_item_id item);
          stock = (case currentItemData of
                     None \<Rightarrow> Fin 0
                   | Some it \<Rightarrow> if num_truthy (i_stock it) then i_stock it else Fin 0);
          newStock = num_sub stock (tl_required_qty item);
          s1 = updateItemStock (tl_item_id item) newStock s;
          name = (case currentItemData of
                    None \<Rightarrow> ''Unknown Item''
                  | Some it \<Rightarrow> if i_name it \<noteq> [] then i_name it else ''Unknown Item'');
          s2 = addHistoryEntry now employeeId employeeName (tl_item_id item) name
                 (tl_required_qty item) ''deduct'' s1
      in deductTaskLoop now employeeId employeeName rest s2)"

definition deductTaskItems ::
  "nat \<Rightarrow> string \<Rightarrow> string \<Rightarrow> string \<Rightarrow> task_line list \<Rightarrow> store \<Rightarrow> (error + string list) \<times> store" where
  "deductTaskItems now taskId employeeId employeeName its s =
     (if its = [] then (Inl NO_ITEMS, s)
      else
        (let s1 = deductTaskLoop now employeeId employeeName its s in
         case tasks s1 taskId of
           None \<Rightarrow> (Inl TASK_NOT_FOUND, s1)
         | Some t \<Rightarrow>
             (let deductedByList = (case t_deducted_by_list t of
                                      IdArray xs \<Rightarrow> xs
                                    | IdCsv v \<Rightarrow> csvToArray v);
                  deductedByList' = (if employeeId \<notin> set deductedByList
                                     then deductedByList @ [employeeId] else deductedByList)
              in (Inr deductedByList',
                  s1\<lparr>tasks := (tasks s1)(taskId \<mapsto> t\<lparr>t_deducted_by_list := IdArray deductedByList'\<rparr>)\<rparr>))))"

section \<open>Mobile API: the task gate\<close>


definition canMarkTaskDone :: "string \<Rightarrow> string \<Rightarrow> store \<Rightarrow> error + bool" where
  "canMarkTaskDone taskId employeeId s =
     (case tasks s taskId of
        None \<Rightarrow> Inl TASK_NOT_FOUND
      | Some t \<Rightarrow>
          (let checkedList = csvToArray (t_checked_by t);
               isChecked = (employeeId \<in> set checkedList);
               hist = take 1 (filter (\<lambda>h. h_employee_id h = employeeId \<and> h_action h = ''deduct''
                                          \<and> h_timestamp h > t_assigned_at t) (history s));
               hasValidDeduct = (length hist > 0)
           in Inr (isChecked \<and> hasValidDeduct)))"

definition doneTask ::
  "nat \<Rightarrow> string \<Rightarrow> string \<Rightarrow> store \<Rightarrow> (error + string list) \<times> store" where
  "doneTask now taskId employeeId s =
     (case canMarkTaskDone taskId employeeId s of
        Inl e \<Rightarrow> (Inl e, s)
      | Inr allowed \<Rightarrow>
          if \<not> allowed then (Inl NOT_ALLOWED, s)
          else
            (let list = csvToArray (case tasks s taskId of None \<Rightarrow> None | Some t \<Rightarrow> t_done_by t);
                 list' = (if employeeId \<notin> set list then list @ [employeeId] else list)
             in (Inr list',
                 (case tasks s taskId of
                    None \<Rightarrow> s
                  | Some t \<Rightarrow>
                      s\<lparr>tasks := (tasks s)(taskId \<mapsto>
                           t\<lparr>t_done_by := Some (arrayToCsv list'), t_done_at := Some now,
                             t_status := ''completed''\<rparr>)\<rparr>))))"




section \<open>A runtime for the examples\<close>

text \<open>
  The examples need a concrete runtime. This one reads and writes decimal integer
  literals, which is all the examples convert; a string that is not such a literal reads
  as \<open>NaN\<close>, the empty string as \<open>0\<close>.
\<close>

definition is_digit :: "char \<Rightarrow> bool" where
  "is_digit c = (48 \<le> (of_char c :: nat) \<and> (of_char c :: nat) \<le> 57)"

definition digits_value :: "string \<Rightarrow> nat" where
  "digits_value ds = foldl (\<lambda>n c. 10 * n + ((of_char c :: nat) - 48)) 0 ds"

definition parse_decimal :: "string \<Rightarrow> jsnum" where
  "parse_decimal s =
     (let t = trim s in
      if t = [] then Fin 0
      else if list_all is_digit t then Fin (of_nat (digits_value t))
      else if hd t = CHR ''-'' \<and> tl t \<noteq> [] \<and> list_all is_digit (tl t)
        then Fin (- of_nat (digits_value (tl t)))
      else if hd t = CHR ''+'' \<and> tl t \<noteq> [] \<and> list_all is_digit (tl t)
        then Fin (of_nat (digits_value (tl t)))
      else NaN)"

fun show_nat :: "nat \<Rightarrow> string" where
  "show_nat n =
     (if n < 10 then [char_of (48 + n)] else show_nat (n div 10) @ [char_of (48 + n mod 10)])"

fun show_number :: "jsnum \<Rightarrow> string" where
  "show_number NaN = ''NaN''"
| "show_number (Fin r) =
     (if r < 0 then CHR ''-'' # show_nat (nat \<lfloor>- r\<rfloor>) else show_nat (nat \<lfloor>r\<rfloor>))"

definition rt0 :: runtime where
  "rt0 = \<lparr>StringToNumber = parse_decimal, NumberToString = show_number\<rparr>"

section \<open>Predicates used in the statements\<close>

text \<open>An action that is \<open>null\<close>, absent, or blank once converted to a string and trimmed.\<close>

definition action_missing :: "runtime \<Rightarrow> jsval \<Rightarrow> bool" where
  "action_missing rt a = (a = JNull \<or> a = JUndefined \<or> trim (js_String rt a) = [])"

text \<open>Two history rows that agree on every column but \<open>action\<close> and \<open>stock_after\<close>.\<close>

definition same_columns :: "hrow \<Rightarrow> hrow \<Rightarrow> bool" where
  "same_columns r r' =
     (h_id r' = h_id r \<and> h_qty r' = h_qty r \<and> h_stock_before r' = h_stock_before r \<and>
      h_item_id r' = h_item_id r \<and> h_employee_id r' = h_employee_id r \<and>
      h_employee_name r' = h_employee_name r \<and> h_item_name r' = h_item_name r \<and>
      h_timestamp r' = h_timestamp r)"

text \<open>
  An identifier that survives the comma-separated encoding of the membership columns: it
  has no comma and no white space at either end. The identifiers the admin API generates
  are drawn from letters and digits.
\<close>

definition id_ok :: "string \<Rightarrow> bool" where
  "id_ok e = (CHR '','' \<notin> set e \<and> trim e = e)"

text \<open>The characters \<open>generateRandomId\<close> of the admin API draws employee ids from.\<close>

definition id_alphabet :: string where
  "id_alphabet = ''abcdefghijklmnopqrstuvwxyz0123456789''"

text \<open>
  The gate of the specification: the employee is in the task's \<open>checked_by\<close> set and has
  a \<open>deduct\<close> entry in the history whose timestamp is strictly after the task's
  \<open>assigned_at\<close>.
\<close>

definition gate_holds :: "string \<Rightarrow> string \<Rightarrow> store \<Rightarrow> bool" where
  "gate_holds taskId employeeId s =
     (case tasks s taskId of
        None \<Rightarrow> False
      | Some t \<Rightarrow>
          employeeId \<in> set (csvToArray (t_checked_by t)) \<and>
          (\<exists>h \<in> set (history s). h_employee_id h = employeeId \<and> h_action h = ''deduct'' \<and>
                                  t_assigned_at t < h_timestamp h))"

text \<open>A task that stands as done for an employee, with the time it was marked.\<close>

definition done_for :: "string \<Rightarrow> string \<Rightarrow> nat \<Rightarrow> store \<Rightarrow> bool" where
  "done_for taskId employeeId now s =
     (case tasks s taskId of
        None \<Rightarrow> False
      | Some t \<Rightarrow>
          employeeId \<in> set (csvToArray (t_done_by t)) \<and> t_status t = ''completed'' \<and>
          t_done_at t = Some now)"





section \<open>Example data\<close>

definition pay_add :: history_payload where
  "pay_add = \<lparr>a_item_id = JStr ''ITEM1'', a_item_name = JStr ''Bolt'', a_action = JStr ''add'',
     a_qty = JNum (Fin 5), a_stock_before = JNum (Fin 10), a_stock_after = JNum (Fin 15),
     a_employee_id = JStr ''emp1'', a_employee_name = JStr ''Ann''\<rparr>"

definition pay_min :: history_payload where
  "pay_min = \<lparr>a_item_id = JStr ''ITEM1'', a_item_name = JStr ''Bolt'', a_action = JStr ''add'',
     a_qty = JNum (Fin 5), a_stock_before = JNum (Fin 15), a_stock_after = JNum (Fin 10),
     a_employee_id = JStr ''emp1'', a_employee_name = JStr ''Ann''\<rparr>"

definition row_min :: hrow where
  "row_min = \<lparr>h_id = 1, h_employee_id = ''emp1'', h_employee_name = ''Ann'', h_item_id = ''ITEM1'',
     h_item_name = ''Bolt'', h_action = ''min'', h_qty = Fin 10, h_stock_before = Some (Fin 15),
     h_stock_after = Some (Fin 10), h_timestamp = 1000\<rparr>"

definition store0 :: store where
  "store0 = \<lparr>items = [''ITEM1'' \<mapsto> \<lparr>i_name = ''Bolt'', i_stock = Fin 50, i_updated_at = 0\<rparr>],
     history = [], next_id = 1, tasks = Map.empty\<rparr>"

definition row_add :: hrow where
  "row_add = \<lparr>h_id = 1, h_employee_id = ''emp1'', h_employee_name = ''Ann'', h_item_id = ''ITEM1'',
     h_item_name = ''Bolt'', h_action = ''add'', h_qty = Fin 15, h_stock_before = Some (Fin 10),
     h_stock_after = Some (Fin 15), h_timestamp = 1000\<rparr>"

definition row_deduct :: hrow where
  "row_deduct = \<lparr>h_id = 1, h_employee_id = ''emp1'', h_employee_name = ''Ann'', h_item_id = ''ITEM1'',
     h_item_name = ''Bolt'', h_action = ''deduct'', h_qty = Fin 10, h_stock_before = None,
     h_stock_after = None, h_timestamp = 1000\<rparr>"

definition store1 :: store where
  "store1 = \<lparr>items = [''ITEM1'' \<mapsto> \<lparr>i_name = ''Bolt'', i_stock = Fin 38, i_updated_at = 0\<rparr>],
     history = [row_deduct], next_id = 2, tasks = Map.empty\<rparr>"

definition task1 :: task where
  "task1 = \<lparr>t_read_by = Some ''emp1'', t_checked_by = Some ''emp1'', t_done_by = None,
     t_deducted_by_list = IdArray [], t_assigned_at = 10, t_done_at = None,
     t_status = ''assigned''\<rparr>"

definition task_done :: task where
  "task_done = \<lparr>t_read_by = Some ''emp1'', t_checked_by = Some ''emp1'', t_done_by = Some ''emp1'',
     t_deducted_by_list = IdArray [], t_assigned_at = 10, t_done_at = Some 2000,
     t_status = ''completed''\<rparr>"


definition row_d12 :: hrow where
  "row_d12 = \<lparr>h_id = 1, h_employee_id = ''emp1'', h_employee_name = ''Ann'', h_item_id = ''ITEM1'',
     h_item_name = ''Bolt'', h_action = ''deduct'', h_qty = Fin 12, h_stock_before = None,
     h_stock_after = None, h_timestamp = 1000\<rparr>"

definition row_d8 :: hrow where
  "row_d8 = \<lparr>h_id = 1, h_employee_id = ''emp1'', h_employee_name = ''Ann'', h_item_id = ''ITEM1'',
     h_item_name = ''Bolt'', h_action = ''deduct'', h_qty = Fin 8, h_stock_before = None,
     h_stock_after = None, h_timestamp = 1000\<rparr>"

definition store2 :: store where
  "store2 = \<lparr>items = [''ITEM1'' \<mapsto> \<lparr>i_name = ''Bolt'', i_stock = Fin 38, i_updated_at = 0\<rparr>],
     history = [row_d12], next_id = 2, tasks = [''TASK1'' \<mapsto> task1]\<rparr>"

definition store3 :: store where
  "store3 = \<lparr>items = [''ITEM1'' \<mapsto> \<lparr>i_name = ''Bolt'', i_stock = Fin 38, i_updated_at = 0\<rparr>],
     history = [row_d12], next_id = 2, tasks = [''TASK1'' \<mapsto> task_done]\<rparr>"

definition store5 :: store where
  "store5 = \<lparr>items = [''ITEM1'' \<mapsto> \<lparr>i_name = ''Bolt'', i_stock = Fin 5, i_updated_at = 0\<rparr>],
     history = [], next_id = 1, tasks = [''TASK1'' \<mapsto> task1]\<rparr>"




section \<open>Evaluation lemmas\<close>

lemma parse_abc: "parse_decimal ''abc'' = NaN"
  by (simp add: parse_decimal_def trim_def is_space_def is_digit_def)

lemma parse_4: "parse_decimal ''4'' = Fin 4"
  by (simp add: parse_decimal_def trim_def is_space_def is_digit_def digits_value_def)

lemma addHistory_pay_add:
  "addHistory rt0 None 1000 pay_add store0 =
     (Inr row_add, store0\<lparr>history := [row_add], next_id := 2\<rparr>)"
  by (simp add: addHistory_def historyData_def finalAction_def finalQty_def pay_add_def store0_def
        js_or_def rt0_def row_add_def Let_def)

lemma addHistory_pay_min:
  "addHistory rt0 None 1000 pay_min store0 =
     (Inr row_min, store0\<lparr>history := [row_min], next_id := 2\<rparr>)"
  by (simp add: addHistory_def historyData_def finalAction_def finalQty_def pay_min_def store0_def
        js_or_def rt0_def row_min_def Let_def)

lemma updateHistory_store1:
  "updateHistory rt0 \<lparr>p_id = 1, p_qty = JNum (Fin 4), p_action = JStr ''deduct'',
       p_stock_after = JNum (Fin 30)\<rparr> store1 =
     (Inr (), store1\<lparr>history := [row_deduct\<lparr>h_stock_after := Some (Fin 30)\<rparr>]\<rparr>)"
  by (simp add: updateHistory_def patch_row_def store1_def row_deduct_def Let_def trim_def
        is_space_def)

lemma store0_item:
  "items store0 ''ITEM1'' = Some \<lparr>i_name = ''Bolt'', i_stock = Fin 50, i_updated_at = 0\<rparr>"
  by (simp add: store0_def)

lemma csv_emp1: "csvToArray (Some ''emp1'') = [''emp1'']"
  by (simp add: csvToArray_def trim_def is_space_def)

lemma csv_emp12: "csvToArray (Some ''emp1,emp2'') = [''emp1'', ''emp2'']"
  by (simp add: csvToArray_def trim_def is_space_def)

lemma doneTask_store2: "doneTask 2000 ''TASK1'' ''emp1'' store2 = (Inr [''emp1''], store3)"
  by (simp add: doneTask_def canMarkTaskDone_def store2_def store3_def task1_def task_done_def
        row_d12_def Let_def arrayToCsv_def csvToArray_def trim_def is_space_def)





section \<open>The comma-separated encoding\<close>


lemma split_comma_not_Nil: "split_comma s \<noteq> []"
  by (induction s) (auto split: list.splits)

lemma split_comma_no_comma: "w \<in> set (split_comma s) \<Longrightarrow> CHR '','' \<notin> set w"
  by (induction s arbitrary: w) (auto split: list.splits if_splits)

lemma split_comma_plain: "CHR '','' \<notin> set x \<Longrightarrow> split_comma x = [x]"
  by (induction x) auto

lemma split_comma_append:
  "CHR '','' \<notin> set x \<Longrightarrow> split_comma (x @ CHR '','' # r) = x # split_comma r"
  by (induction x) auto

lemma split_join:
  "ys \<noteq> [] \<Longrightarrow> \<forall>y\<in>set ys. CHR '','' \<notin> set y \<Longrightarrow> split_comma (join_comma ys) = ys"
  by (induction ys rule: join_comma.induct) (auto simp: split_comma_plain split_comma_append)

lemma join_comma_Nil: "join_comma ys = [] \<longleftrightarrow> ys = [] \<or> ys = [[]]"
  by (induction ys rule: join_comma.induct) auto

lemma dropWhile_self: "x = [] \<or> \<not> P (hd x) \<Longrightarrow> dropWhile P x = x"
  by (cases x) auto

lemma trim_subset: "set (trim s) \<subseteq> set s"
  unfolding trim_def by (auto dest!: set_dropWhileD)

lemma trim_ends:
  assumes "trim s \<noteq> []"
  shows "\<not> is_space (hd (trim s)) \<and> \<not> is_space (last (trim s))"
proof -
  define d where "d = dropWhile is_space s"
  define e where "e = dropWhile is_space (rev d)"
  have t: "trim s = rev e" by (simp add: trim_def d_def e_def)
  with assms have ne: "e \<noteq> []" by simp
  then have hd_e: "\<not> is_space (hd e)" unfolding e_def by (rule hd_dropWhile)
  have "rev d = takeWhile is_space (rev d) @ e" by (simp add: e_def)
  with ne have "last (rev d) = last e" by (metis last_appendR)
  moreover from ne have dne: "d \<noteq> []" by (auto simp: e_def)
  ultimately have "last e = hd d" by (simp add: last_rev)
  moreover from dne have "\<not> is_space (hd d)" unfolding d_def by (rule hd_dropWhile)
  ultimately show ?thesis using hd_e ne by (simp add: t hd_rev last_rev)
qed

lemma trim_id:
  assumes "x = [] \<or> (\<not> is_space (hd x) \<and> \<not> is_space (last x))"
  shows "trim x = x"
proof (cases "x = []")
  case True
  then show ?thesis by (simp add: trim_def)
next
  case False
  with assms have h: "\<not> is_space (hd x)" and l: "\<not> is_space (last x)" by auto
  from h have "dropWhile is_space x = x" by (simp add: dropWhile_self)
  moreover from l False have "dropWhile is_space (rev x) = rev x"
    by (intro dropWhile_self) (simp add: hd_rev)
  ultimately show ?thesis by (simp add: trim_def)
qed

lemma trim_trim: "trim (trim s) = trim s"
  using trim_ends [of s] by (intro trim_id) auto


lemma csvToArray_elems:
  assumes "x \<in> set (csvToArray v)"
  shows "x \<noteq> [] \<and> id_ok x"
proof -
  from assms obtain w y where "v = Some w" and y: "y \<in> set (split_comma w)" and x: "x = trim y" "x \<noteq> []"
    by (auto simp: csvToArray_def split: option.splits if_splits)
  from y have "CHR '','' \<notin> set y" by (rule split_comma_no_comma)
  with trim_subset [of y] x have "CHR '','' \<notin> set x" by auto
  with x show ?thesis by (simp add: id_ok_def trim_trim)
qed

lemma csvToArray_join:
  assumes "\<forall>y\<in>set ys. id_ok y"
  shows "csvToArray (Some (arrayToCsv ys)) = filter (\<lambda>x. x \<noteq> []) ys"
proof (cases "join_comma ys = []")
  case True
  then show ?thesis by (auto simp: csvToArray_def arrayToCsv_def join_comma_Nil)
next
  case False
  then have "ys \<noteq> []" by auto
  with assms have "split_comma (join_comma ys) = ys" by (intro split_join) (auto simp: id_ok_def)
  moreover from assms have "map trim ys = ys" by (induction ys) (auto simp: id_ok_def)
  ultimately show ?thesis using False by (simp add: csvToArray_def arrayToCsv_def)
qed

lemma csvToArray_push:
  assumes "id_ok e"
  shows "csvToArray (Some (arrayToCsv (if e \<notin> set (csvToArray v) then csvToArray v @ [e] else csvToArray v)))
         = (if e \<notin> set (csvToArray v) \<and> e \<noteq> [] then csvToArray v @ [e] else csvToArray v)"
proof -
  have ok: "\<forall>y\<in>set (csvToArray v). id_ok y" and ne: "\<forall>y\<in>set (csvToArray v). y \<noteq> []"
    using csvToArray_elems by blast+
  from ne have f: "filter (\<lambda>x. x \<noteq> []) (csvToArray v) = csvToArray v" by (simp add: filter_id_conv)
  show ?thesis
  proof (cases "e \<notin> set (csvToArray v)")
    case True
    from ok assms have "\<forall>y\<in>set (csvToArray v @ [e]). id_ok y" by auto
    from csvToArray_join [OF this] True f show ?thesis by simp
  next
    case False
    with csvToArray_join [OF ok] f show ?thesis by simp
  qed
qed


text \<open>Every identifier over the alphabet of \<open>generateRandomId\<close> survives the encoding.\<close>

lemma generated_id_ok:
  assumes "set e \<subseteq> set id_alphabet"
  shows "id_ok e"
proof -
  have a: "\<forall>c \<in> set id_alphabet. c \<noteq> CHR '','' \<and> \<not> is_space c"
    by (simp add: id_alphabet_def is_space_def)
  with assms have c: "CHR '','' \<notin> set e" by blast
  have "e = [] \<or> (\<not> is_space (hd e) \<and> \<not> is_space (last e))"
  proof (cases "e = []")
    case False
    then have "hd e \<in> set e" "last e \<in> set e" by simp_all
    with assms a show ?thesis by blast
  qed simp
  then have "trim e = e" by (rule trim_id)
  with c show ?thesis by (simp add: id_ok_def)
qed

section \<open>Lemmas on the task gate\<close>



lemma take1_filter: "(0 < length (take 1 (filter P xs))) = (\<exists>x\<in>set xs. P x)"
proof -
  have "(0 < length (take 1 ys)) = (ys \<noteq> [])" for ys :: "'a list" by (cases ys) auto
  then show ?thesis by (simp add: filter_empty_conv)
qed

lemma canMarkTaskDone_gate:
  "canMarkTaskDone taskId employeeId s =
     (case tasks s taskId of None \<Rightarrow> Inl TASK_NOT_FOUND
      | Some t \<Rightarrow> Inr (gate_holds taskId employeeId s))"
  by (auto simp: canMarkTaskDone_def gate_holds_def Let_def filter_empty_conv split: option.splits)

lemma gate_holds_id:
  assumes "gate_holds taskId employeeId s"
  shows "id_ok employeeId \<and> employeeId \<noteq> []"
  using assms csvToArray_elems by (auto simp: gate_holds_def split: option.splits)

lemma doneTask_allowed:
  assumes "gate_holds taskId employeeId s" and "tasks s taskId = Some t"
  shows "doneTask now taskId employeeId s =
           (Inr (if employeeId \<notin> set (csvToArray (t_done_by t))
                 then csvToArray (t_done_by t) @ [employeeId] else csvToArray (t_done_by t)),
            s\<lparr>tasks := (tasks s)(taskId \<mapsto>
                 t\<lparr>t_done_by := Some (arrayToCsv
                        (if employeeId \<notin> set (csvToArray (t_done_by t))
                         then csvToArray (t_done_by t) @ [employeeId] else csvToArray (t_done_by t))),
                   t_done_at := Some now, t_status := ''completed''\<rparr>)\<rparr>)"
  using assms by (simp add: doneTask_def canMarkTaskDone_gate Let_def)

lemma doneTask_refused:
  assumes "\<not> gate_holds taskId employeeId s"
  shows "\<exists>err. doneTask now taskId employeeId s = (Inl err, s)"
  using assms by (simp add: doneTask_def canMarkTaskDone_gate split: option.splits)







section \<open>Inserting a history entry\<close>

text \<open>
  C1. Whenever \<open>addHistory\<close> inserts a row, the row is appended to the history; its
  \<open>stock_before\<close> and \<open>stock_after\<close> are the numbers of the request (0 for a value that
  is absent or empty); and its action is \<open>deduct\<close> if the requested action is \<open>deduct\<close>,
  otherwise \<open>add\<close> when that \<open>stock_after\<close> is greater than that \<open>stock_before\<close>,
  \<open>min\<close> when it is smaller, and the requested action, unchanged, in every other case
  (in particular when the two are equal).
\<close>

theorem addHistory_classifies_action:
  assumes "addHistory rt currentUser now p s = (Inr r, s')"
  shows "history s' = history s @ [r] \<and>
         h_stock_before r = Some (js_Number rt (js_or (a_stock_before p) (JNum (Fin 0)))) \<and>
         h_stock_after r = Some (js_Number rt (js_or (a_stock_after p) (JNum (Fin 0)))) \<and>
         h_action r =
           (if a_action p = JStr ''deduct'' then ''deduct''
            else if num_gt (js_Number rt (js_or (a_stock_after p) (JNum (Fin 0))))
                           (js_Number rt (js_or (a_stock_before p) (JNum (Fin 0)))) then ''add''
            else if num_lt (js_Number rt (js_or (a_stock_after p) (JNum (Fin 0))))
                           (js_Number rt (js_or (a_stock_before p) (JNum (Fin 0)))) then ''min''
            else js_String rt (a_action p))"
  using assms
  by (auto simp: addHistory_def historyData_def finalAction_def Let_def split: if_splits)

theorem addHistory_classifies_action_witness:
  "addHistory rt0 None 1000 pay_add store0 =
     (Inr row_add, store0\<lparr>history := [row_add], next_id := 2\<rparr>)
   \<and> a_stock_before pay_add = JNum (Fin 10) \<and> a_stock_after pay_add = JNum (Fin 15)
   \<and> h_stock_before row_add = Some (Fin 10) \<and> h_stock_after row_add = Some (Fin 15)
   \<and> h_action row_add = ''add''
   \<and> addHistory rt0 None 1000 pay_min store0 =
     (Inr row_min, store0\<lparr>history := [row_min], next_id := 2\<rparr>)
   \<and> a_action pay_min = JStr ''add''
   \<and> a_stock_before pay_min = JNum (Fin 15) \<and> a_stock_after pay_min = JNum (Fin 10)
   \<and> h_stock_before row_min = Some (Fin 15) \<and> h_stock_after row_min = Some (Fin 10)
   \<and> h_action row_min = ''min''"
proof -
  have p1: "a_stock_before pay_add = JNum (Fin 10) \<and> a_stock_after pay_add = JNum (Fin 15)"
    by (simp add: pay_add_def)
  have p2: "a_action pay_min = JStr ''add'' \<and>
            a_stock_before pay_min = JNum (Fin 15) \<and> a_stock_after pay_min = JNum (Fin 10)"
    by (simp add: pay_min_def)
  from addHistory_classifies_action [OF addHistory_pay_add] p1
  have 1: "h_stock_before row_add = Some (Fin 10) \<and> h_stock_after row_add = Some (Fin 15) \<and>
           h_action row_add = ''add''"
    by (simp add: js_or_def pay_add_def)
  from addHistory_classifies_action [OF addHistory_pay_min] p2
  have 2: "h_stock_before row_min = Some (Fin 15) \<and> h_stock_after row_min = Some (Fin 10) \<and>
           h_action row_min = ''min''"
    by (simp add: js_or_def)
  from p1 p2 1 2 addHistory_pay_add addHistory_pay_min show ?thesis by blast
qed

text \<open>
  C2, as the code has it. The recorded qty is the requested qty, as a number, when the
  requested action is \<open>deduct\<close>; for every other requested action, hence whenever the
  recorded action is \<open>add\<close> or \<open>min\<close>, it is the recorded \<open>stock_after\<close> itself, not the
  distance between the two stock values.
\<close>

theorem addHistory_qty:
  assumes "addHistory rt currentUser now p s = (Inr r, s')"
  shows "h_qty r = (if a_action p = JStr ''deduct'' then js_Number rt (a_qty p)
                    else js_Number rt (js_or (a_stock_after p) (JNum (Fin 0)))) \<and>
         (a_action p \<noteq> JStr ''deduct'' \<longrightarrow> h_stock_after r = Some (h_qty r))"
  using assms
  by (auto simp: addHistory_def historyData_def finalQty_def Let_def split: if_splits)

theorem addHistory_qty_witness:
  "addHistory rt0 None 1000 pay_add store0 =
     (Inr row_add, store0\<lparr>history := [row_add], next_id := 2\<rparr>)
   \<and> a_action pay_add \<noteq> JStr ''deduct'' \<and> h_qty row_add = Fin 15
   \<and> h_stock_after row_add = Some (h_qty row_add)"
proof -
  have a: "a_action pay_add \<noteq> JStr ''deduct''" by (simp add: pay_add_def)
  have q: "h_qty row_add = Fin 15" by (simp add: row_add_def)
  from addHistory_qty [OF addHistory_pay_add] a
  have "h_stock_after row_add = Some (h_qty row_add)" by blast
  with a q addHistory_pay_add show ?thesis by blast
qed

text \<open>
  C2 as stated fails: an \<open>add\<close> from stock 10 to stock 15 is recorded with qty 15, where
  the distance between the two stock values is 5.
\<close>

theorem addHistory_qty_counterexample:
  "addHistory rt0 None 1000 pay_add store0 =
     (Inr row_add, store0\<lparr>history := [row_add], next_id := 2\<rparr>)
   \<and> h_action row_add = ''add''
   \<and> h_stock_before row_add = Some (Fin 10) \<and> h_stock_after row_add = Some (Fin 15)
   \<and> h_qty row_add = Fin 15 \<and> h_qty row_add \<noteq> Fin \<bar>15 - 10\<bar>"
  by (simp add: addHistory_pay_add row_add_def)

section \<open>Validation\<close>

text \<open>
  C4, as the code has it. \<open>updateHistory\<close> rejects a qty that is not an integer with
  \<open>INVALID_QTY\<close> and, the qty being an integer, an empty or missing action with
  \<open>ACTION_EMPTY\<close>; \<open>addHistory\<close> rejects an absent or empty item id, action or qty with
  its missing-fields error. In each case the store is returned as it was.
\<close>

theorem history_validation:
  "(\<not> isInteger (js_Number rt (p_qty h)) \<longrightarrow> updateHistory rt h s = (Inl INVALID_QTY, s)) \<and>
   (isInteger (js_Number rt (p_qty h)) \<and> action_missing rt (p_action h) \<longrightarrow>
      updateHistory rt h s = (Inl ACTION_EMPTY, s)) \<and>
   (\<not> truthy (a_item_id p) \<or> \<not> truthy (a_action p) \<or> \<not> truthy (a_qty p) \<longrightarrow>
      addHistory rt currentUser now p s = (Inl MISSING_FIELDS, s))"
  by (auto simp: updateHistory_def addHistory_def action_missing_def Let_def)

theorem history_validation_witness:
  "\<not> isInteger (js_Number rt0 (JStr ''abc'')) \<and>
   updateHistory rt0 \<lparr>p_id = 1, p_qty = JStr ''abc'', p_action = JStr ''deduct'',
                      p_stock_after = JUndefined\<rparr> store1 = (Inl INVALID_QTY, store1) \<and>
   isInteger (js_Number rt0 (JStr ''4'')) \<and> action_missing rt0 (JStr '' '') \<and>
   updateHistory rt0 \<lparr>p_id = 1, p_qty = JStr ''4'', p_action = JStr '' '',
                      p_stock_after = JUndefined\<rparr> store1 = (Inl ACTION_EMPTY, store1) \<and>
   \<not> truthy (a_action (pay_add\<lparr>a_action := JStr []\<rparr>)) \<and>
   addHistory rt0 None 1000 (pay_add\<lparr>a_action := JStr []\<rparr>) store0 = (Inl MISSING_FIELDS, store0)"
proof -
  have a: "\<not> isInteger (js_Number rt0 (JStr ''abc''))" by (simp add: rt0_def parse_abc)
  have b: "isInteger (js_Number rt0 (JStr ''4''))" by (simp add: rt0_def parse_4)
  have c: "action_missing rt0 (JStr '' '')" by (simp add: action_missing_def trim_def is_space_def)
  have d: "\<not> truthy (a_action (pay_add\<lparr>a_action := JStr []\<rparr>))" by simp
  from a history_validation
    [of rt0 "\<lparr>p_id = 1, p_qty = JStr ''abc'', p_action = JStr ''deduct'', p_stock_after = JUndefined\<rparr>"
        store1]
  have 1: "updateHistory rt0 \<lparr>p_id = 1, p_qty = JStr ''abc'', p_action = JStr ''deduct'',
                      p_stock_after = JUndefined\<rparr> store1 = (Inl INVALID_QTY, store1)" by simp
  from b c history_validation
    [of rt0 "\<lparr>p_id = 1, p_qty = JStr ''4'', p_action = JStr '' '', p_stock_after = JUndefined\<rparr>"
        store1]
  have 2: "updateHistory rt0 \<lparr>p_id = 1, p_qty = JStr ''4'', p_action = JStr '' '',
                      p_stock_after = JUndefined\<rparr> store1 = (Inl ACTION_EMPTY, store1)" by simp
  from d history_validation
    [where rt = rt0 and p = "pay_add\<lparr>a_action := JStr []\<rparr>" and currentUser = None
       and now = 1000 and s = store0]
  have 3: "addHistory rt0 None 1000 (pay_add\<lparr>a_action := JStr []\<rparr>) store0 = (Inl MISSING_FIELDS, store0)"
    by blast
  from a b c d 1 2 3 show ?thesis by blast
qed

text \<open>
  C4 as stated fails on insert: a qty of \<open>"abc"\<close>, which is no integer, is not rejected by
  \<open>addHistory\<close>; the row is written.
\<close>

theorem history_validation_counterexample:
  "\<not> isInteger (js_Number rt0 (JStr ''abc'')) \<and>
   addHistory rt0 None 1000 (pay_add\<lparr>a_qty := JStr ''abc''\<rparr>) store0 =
     (Inr row_add, store0\<lparr>history := [row_add], next_id := 2\<rparr>) \<and>
   history (store0\<lparr>history := [row_add], next_id := 2\<rparr>) \<noteq> history store0"
  by (simp add: parse_abc addHistory_def historyData_def finalAction_def finalQty_def pay_add_def
        store0_def js_or_def rt0_def row_add_def Let_def)

section \<open>Editing a history entry\<close>

text \<open>
  C10. Whatever \<open>updateHistory\<close> is given and however it ends, the items and tasks are
  untouched, the history keeps its length, and every row keeps its id, qty, stock_before,
  item id, employee id, employee name, item name and timestamp; a row whose id is not the
  targeted one is unchanged altogether. The qty of the input is checked and never written.
\<close>

theorem updateHistory_frame:
  assumes "updateHistory rt h s = (res, s')"
  shows "items s' = items s \<and> tasks s' = tasks s \<and> next_id s' = next_id s \<and>
         length (history s') = length (history s) \<and>
         (\<forall>i < length (history s).
            same_columns (history s ! i) (history s' ! i) \<and>
            (h_id (history s ! i) \<noteq> p_id h \<longrightarrow> history s' ! i = history s ! i))"
  using assms
  by (auto simp: updateHistory_def Let_def same_columns_def patch_row_def
           split: if_splits option.splits)

theorem updateHistory_frame_witness:
  "updateHistory rt0 \<lparr>p_id = 1, p_qty = JNum (Fin 4), p_action = JStr ''deduct'',
       p_stock_after = JNum (Fin 30)\<rparr> store1 =
     (Inr (), store1\<lparr>history := [row_deduct\<lparr>h_stock_after := Some (Fin 30)\<rparr>]\<rparr>) \<and>
   same_columns row_deduct (row_deduct\<lparr>h_stock_after := Some (Fin 30)\<rparr>) \<and>
   h_qty (row_deduct\<lparr>h_stock_after := Some (Fin 30)\<rparr>) = Fin 10"
proof -
  have l: "(0::nat) < length (history store1)" by (simp add: store1_def)
  from updateHistory_frame [OF updateHistory_store1] l
  have "same_columns (history store1 ! 0)
          (history (store1\<lparr>history := [row_deduct\<lparr>h_stock_after := Some (Fin 30)\<rparr>]\<rparr>) ! 0)"
    by blast
  then have "same_columns row_deduct (row_deduct\<lparr>h_stock_after := Some (Fin 30)\<rparr>)"
    by (simp add: store1_def)
  moreover have "h_qty (row_deduct\<lparr>h_stock_after := Some (Fin 30)\<rparr>) = Fin 10"
    by (simp add: row_deduct_def)
  ultimately show ?thesis using updateHistory_store1 by blast
qed

section \<open>Editing a deduct entry from the history page\<close>

text \<open>An edit never changes the qty column of any history row, whatever the form holds.\<close>

lemma handleEditSubmit_keeps_qty:
  assumes "handleEditSubmit rt now editEntry editForm currentItemStock s = (res, s')"
  shows "map h_qty (history s') = map h_qty (history s)"
  using assms
  by (auto simp: handleEditSubmit_def updateHistory_def updateItem_def Let_def patch_row_def
           split: if_splits option.splits prod.splits sum.splits intro!: map_cong [OF refl])

text \<open>
  C3, as the code has it. Take an edit of a deduct entry whose form holds an integer qty
  and an action that is not empty, the entry's item being in the store. The form was
  opened on the item's stock. The submit ends without an error; it sets the item's stock
  to the stock the form was opened on plus the entry's qty minus the new qty; in the
  history it writes the trimmed action of the form to the rows of the entry's id and
  nothing else, so that every stored qty, the entry's own included, is what it was.
\<close>

theorem edit_deduct_stock_not_qty:
  assumes "h_action editEntry = ''deduct''"
    and "isInteger (js_Number rt (f_qty editForm))"
    and "\<not> action_missing rt (f_action editForm)"
    and "items s (h_item_id editEntry) = Some it"
  shows "snd (handleEdit editEntry s) = i_stock it \<and>
         handleEditSubmit rt now editEntry editForm currentItemStock s =
           (None,
            s\<lparr>history := map (\<lambda>r. if h_id r = h_id editEntry
                                    then r\<lparr>h_action := trim (js_String rt (f_action editForm))\<rparr>
                                    else r) (history s),
              items := (items s)(h_item_id editEntry \<mapsto>
                         it\<lparr>i_stock := num_add currentItemStock
                                          (num_sub (h_qty editEntry)
                                                   (js_Number rt (f_qty editForm))),
                            i_updated_at := now\<rparr>)\<rparr>) \<and>
         map h_qty (history (snd (handleEditSubmit rt now editEntry editForm currentItemStock s)))
           = map h_qty (history s)"
proof -
  have h: "snd (handleEdit editEntry s) = i_stock it"
    using assms(4) by (simp add: handleEdit_def Let_def)
  have e: "handleEditSubmit rt now editEntry editForm currentItemStock s =
           (None,
            s\<lparr>history := map (\<lambda>r. if h_id r = h_id editEntry
                                    then r\<lparr>h_action := trim (js_String rt (f_action editForm))\<rparr>
                                    else r) (history s),
              items := (items s)(h_item_id editEntry \<mapsto>
                         it\<lparr>i_stock := num_add currentItemStock
                                          (num_sub (h_qty editEntry)
                                                   (js_Number rt (f_qty editForm))),
                            i_updated_at := now\<rparr>)\<rparr>)"
    using assms
    by (simp add: handleEditSubmit_def updateHistory_def updateItem_def apply_item_patch_def
          patch_row_def action_missing_def Let_def)
  have q: "map h_qty (history (snd (handleEditSubmit rt now editEntry editForm currentItemStock s)))
           = map h_qty (history s)"
    using handleEditSubmit_keeps_qty [of rt now editEntry editForm currentItemStock s]
    by (cases "handleEditSubmit rt now editEntry editForm currentItemStock s") simp
  from h e q show ?thesis by blast
qed

theorem edit_deduct_stock_not_qty_witness:
  "h_action row_deduct = ''deduct'' \<and> isInteger (js_Number rt0 (JStr ''4'')) \<and>
   \<not> action_missing rt0 (JStr ''deduct'') \<and>
   items store1 ''ITEM1'' = Some \<lparr>i_name = ''Bolt'', i_stock = Fin 38, i_updated_at = 0\<rparr> \<and>
   snd (handleEdit row_deduct store1) = Fin 38 \<and>
   handleEditSubmit rt0 2000 row_deduct \<lparr>f_qty = JStr ''4'', f_action = JStr ''deduct''\<rparr>
       (Fin 38) store1 =
     (None, store1\<lparr>items := [''ITEM1'' \<mapsto>
                                \<lparr>i_name = ''Bolt'', i_stock = Fin 44, i_updated_at = 2000\<rparr>]\<rparr>) \<and>
   map h_qty (history (store1\<lparr>items := [''ITEM1'' \<mapsto>
                                \<lparr>i_name = ''Bolt'', i_stock = Fin 44, i_updated_at = 2000\<rparr>]\<rparr>))
     = [Fin 10]"
proof -
  have a: "h_action row_deduct = ''deduct''" by (simp add: row_deduct_def)
  have b: "isInteger (js_Number rt0 (f_qty \<lparr>f_qty = JStr ''4'', f_action = JStr ''deduct''\<rparr>))"
    by (simp add: rt0_def parse_4)
  have c: "\<not> action_missing rt0 (f_action \<lparr>f_qty = JStr ''4'', f_action = JStr ''deduct''\<rparr>)"
    by (simp add: action_missing_def trim_def is_space_def)
  have d: "items store1 (h_item_id row_deduct) =
             Some \<lparr>i_name = ''Bolt'', i_stock = Fin 38, i_updated_at = 0\<rparr>"
    by (simp add: store1_def row_deduct_def)
  note r = edit_deduct_stock_not_qty [OF a b c d, where now = 2000 and currentItemStock = "Fin 38"]
  from a b c d r show ?thesis
    by (simp add: rt0_def parse_4 row_deduct_def store1_def trim_def is_space_def)
qed

text \<open>
  C3 as stated fails in its second half. The edit of a deduct entry from qty 10 to qty 4,
  the item standing at stock 38: the form opens on qty 10 and stock 38; the submit ends
  without an error and raises the item's stock to 44, that is 38 + (10 - 4); the history
  is what it was, so the entry's stored qty is still 10 and has not become 4.
\<close>

theorem edit_deduct_qty_counterexample:
  "handleEdit row_deduct store1 = (\<lparr>f_qty = JNum (Fin 10), f_action = JStr ''deduct''\<rparr>, Fin 38) \<and>
   handleEditSubmit rt0 2000 row_deduct \<lparr>f_qty = JStr ''4'', f_action = JStr ''deduct''\<rparr>
       (Fin 38) store1 =
     (None, store1\<lparr>items := [''ITEM1'' \<mapsto>
                                \<lparr>i_name = ''Bolt'', i_stock = Fin 44, i_updated_at = 2000\<rparr>]\<rparr>) \<and>
   history (store1\<lparr>items := [''ITEM1'' \<mapsto>
                                \<lparr>i_name = ''Bolt'', i_stock = Fin 44, i_updated_at = 2000\<rparr>]\<rparr>)
     = [row_deduct] \<and>
   h_qty row_deduct = Fin 10 \<and> h_qty row_deduct \<noteq> Fin 4"
  by (simp add: handleEdit_def handleEditSubmit_def updateHistory_def updateItem_def
        apply_item_patch_def patch_row_def rt0_def parse_4 row_deduct_def store1_def Let_def
        trim_def is_space_def)

section \<open>Deduction\<close>

text \<open>
  C7. An item at stock 5 and a task line that requires 8 of it: the task-items flow
  writes the stock -3, which is below zero; the direct flow, on the same store and
  quantity, writes 0.
\<close>

theorem task_deduction_goes_negative:
  "deductTaskItems 1000 ''TASK1'' ''emp1'' ''Ann''
      [\<lparr>tl_item_id = ''ITEM1'', tl_required_qty = Fin 8\<rparr>] store5 =
     (Inr [''emp1''],
      \<lparr>items = [''ITEM1'' \<mapsto> \<lparr>i_name = ''Bolt'', i_stock = Fin (- 3), i_updated_at = 0\<rparr>],
       history = [row_d8], next_id = 2,
       tasks = [''TASK1'' \<mapsto> task1\<lparr>t_deducted_by_list := IdArray [''emp1'']\<rparr>]\<rparr>) \<and>
   num_lt (Fin (- 3)) (Fin 0) \<and>
   items (snd (deductItem 1000 ''emp1'' ''Ann'' [\<lparr>d_itemId = ''ITEM1'', d_qty = Fin 8\<rparr>] store5))
       ''ITEM1''
     = Some \<lparr>i_name = ''Bolt'', i_stock = Fin 0, i_updated_at = 0\<rparr>"
  by (simp add: deductTaskItems_def updateItemStock_def addHistoryEntry_def getItemById_def
        store5_def task1_def row_d8_def Let_def)

text \<open>
  C8, as the code has it. When an employee deducts \<open>q\<close> from an item that exists and
  stands at stock \<open>S\<close>, the call succeeds, the item's stock becomes \<open>max (S - q) 0\<close>, and
  one row is appended to the history: action \<open>deduct\<close>, qty \<open>q\<close>, and no \<open>stock_before\<close>
  or \<open>stock_after\<close>. Nothing else changes.
\<close>

theorem deductItem_single:
  assumes "items s itemId = Some it" and "i_stock it = Fin S"
  shows "deductItem now employeeId employeeName [\<lparr>d_itemId = itemId, d_qty = Fin q\<rparr>] s =
           (Inr (),
            s\<lparr>items := (items s)(itemId \<mapsto> it\<lparr>i_stock := Fin (max (S - q) 0)\<rparr>),
              history := history s @
                [\<lparr>h_id = next_id s, h_employee_id = employeeId, h_employee_name = employeeName,
                  h_item_id = itemId, h_item_name = i_name it, h_action = ''deduct'',
                  h_qty = Fin q, h_stock_before = None, h_stock_after = None,
                  h_timestamp = now\<rparr>],
              next_id := Suc (next_id s)\<rparr>)"
  using assms
  by (simp add: getItemById_def updateItemStock_def addHistoryEntry_def Let_def)

theorem deductItem_single_witness:
  "items store0 ''ITEM1'' = Some \<lparr>i_name = ''Bolt'', i_stock = Fin 50, i_updated_at = 0\<rparr> \<and>
   deductItem 1000 ''emp1'' ''Ann'' [\<lparr>d_itemId = ''ITEM1'', d_qty = Fin 12\<rparr>] store0 =
     (Inr (),
      \<lparr>items = [''ITEM1'' \<mapsto> \<lparr>i_name = ''Bolt'', i_stock = Fin 38, i_updated_at = 0\<rparr>],
       history = [row_d12], next_id = 2, tasks = Map.empty\<rparr>)"
  using deductItem_single [OF store0_item, of 50 1000 "''emp1''" "''Ann''" 12]
  by (simp add: store0_def row_d12_def)

text \<open>
  C8 as stated fails. Deducting 8 from an item at stock 5 leaves the stock at 0, not at
  5 - 8, and the row written has neither a \<open>stock_before\<close> of 5 nor any \<open>stock_after\<close>.
\<close>

theorem deductItem_single_counterexample:
  "deductItem 1000 ''emp1'' ''Ann'' [\<lparr>d_itemId = ''ITEM1'', d_qty = Fin 8\<rparr>] store5 =
     (Inr (),
      \<lparr>items = [''ITEM1'' \<mapsto> \<lparr>i_name = ''Bolt'', i_stock = Fin 0, i_updated_at = 0\<rparr>],
       history = [row_d8], next_id = 2, tasks = [''TASK1'' \<mapsto> task1]\<rparr>) \<and>
   Fin 0 \<noteq> Fin (5 - 8) \<and>
   h_action row_d8 = ''deduct'' \<and> h_qty row_d8 = Fin 8 \<and>
   h_stock_before row_d8 \<noteq> Some (Fin 5) \<and> h_stock_after row_d8 = None"
  by (simp add: getItemById_def updateItemStock_def addHistoryEntry_def Let_def store5_def
        row_d8_def)

section \<open>The task gate\<close>

text \<open>
  C5. If the gate holds for a task and an employee, \<open>doneTask\<close> returns normally and the
  task then stands as done for the employee, with status \<open>completed\<close> and the time of the
  call; items and history are untouched. If the gate does not hold, because the employee
  is not in \<open>checked_by\<close>, or has no \<open>deduct\<close> entry after \<open>assigned_at\<close>, or the task
  does not exist, \<open>doneTask\<close> throws and the store is exactly what it was.
\<close>

theorem doneTask_gate:
  "(gate_holds taskId employeeId s \<longrightarrow>
      (\<exists>list s'. doneTask now taskId employeeId s = (Inr list, s') \<and>
                 done_for taskId employeeId now s' \<and>
                 items s' = items s \<and> history s' = history s)) \<and>
   (\<not> gate_holds taskId employeeId s \<longrightarrow>
      (\<exists>err. doneTask now taskId employeeId s = (Inl err, s)))"
proof (intro conjI impI)
  assume g: "gate_holds taskId employeeId s"
  then obtain t where t: "tasks s taskId = Some t"
    by (auto simp: gate_holds_def split: option.splits)
  from gate_holds_id [OF g] have ok: "id_ok employeeId" and ne: "employeeId \<noteq> []" by auto
  from csvToArray_push [OF ok, of "t_done_by t"] ne
  have "employeeId \<in> set (csvToArray (Some (arrayToCsv
          (if employeeId \<notin> set (csvToArray (t_done_by t))
           then csvToArray (t_done_by t) @ [employeeId] else csvToArray (t_done_by t)))))"
    by (auto split: if_splits)
  with doneTask_allowed [OF g t, of now]
  show "\<exists>list s'. doneTask now taskId employeeId s = (Inr list, s') \<and>
                 done_for taskId employeeId now s' \<and>
                 items s' = items s \<and> history s' = history s"
    by (simp add: done_for_def)
next
  assume "\<not> gate_holds taskId employeeId s"
  then show "\<exists>err. doneTask now taskId employeeId s = (Inl err, s)" by (rule doneTask_refused)
qed

theorem doneTask_gate_witness:
  "gate_holds ''TASK1'' ''emp1'' store2 \<and>
   doneTask 2000 ''TASK1'' ''emp1'' store2 = (Inr [''emp1''], store3) \<and>
   done_for ''TASK1'' ''emp1'' 2000 store3 \<and>
   \<not> gate_holds ''TASK1'' ''emp2'' store2 \<and>
   doneTask 2000 ''TASK1'' ''emp2'' store2 = (Inl NOT_ALLOWED, store2)"
proof -
  have g1: "gate_holds ''TASK1'' ''emp1'' store2"
    by (simp add: gate_holds_def store2_def task1_def row_d12_def csv_emp1)
  have g2: "\<not> gate_holds ''TASK1'' ''emp2'' store2"
    by (simp add: gate_holds_def store2_def task1_def row_d12_def csv_emp1)
  from g1 doneTask_gate [of "''TASK1''" "''emp1''" store2 2000] doneTask_store2
  have d: "done_for ''TASK1'' ''emp1'' 2000 store3" by auto
  from g2 doneTask_gate [of "''TASK1''" "''emp2''" store2 2000]
  obtain err where "doneTask 2000 ''TASK1'' ''emp2'' store2 = (Inl err, store2)" by blast
  moreover have "fst (doneTask 2000 ''TASK1'' ''emp2'' store2) = Inl NOT_ALLOWED"
    using g2 by (simp add: doneTask_def canMarkTaskDone_gate store2_def)
  ultimately have r: "doneTask 2000 ''TASK1'' ''emp2'' store2 = (Inl NOT_ALLOWED, store2)" by simp
  from g1 g2 d r doneTask_store2 show ?thesis by blast
qed

text \<open>
  C6, as the code has it. After a call of \<open>doneTask\<close> that returned normally, a second call
  for the same task and employee returns normally again, with the same list; it leaves
  \<open>done_by\<close> and the status as the first call set them and every other column as it was,
  but it overwrites \<open>done_at\<close> with the time of the second call.
\<close>

theorem doneTask_again:
  assumes "doneTask now1 taskId employeeId s0 = (Inr l1, s1)"
  shows "\<exists>t1. tasks s1 taskId = Some t1 \<and>
              employeeId \<in> set (csvToArray (t_done_by t1)) \<and>
              doneTask now2 taskId employeeId s1 =
                (Inr l1, s1\<lparr>tasks := (tasks s1)(taskId \<mapsto> t1\<lparr>t_done_at := Some now2\<rparr>)\<rparr>)"
proof -
  from assms have g: "gate_holds taskId employeeId s0"
    using doneTask_refused [of taskId employeeId s0 now1] by auto
  then obtain t0 where t0: "tasks s0 taskId = Some t0"
    by (auto simp: gate_holds_def split: option.splits)
  define l where "l = csvToArray (t_done_by t0)"
  define t1 where "t1 = t0\<lparr>t_done_by := Some (arrayToCsv l1), t_done_at := Some now1,
                          t_status := ''completed''\<rparr>"
  from doneTask_allowed [OF g t0, of now1] assms
  have l1: "l1 = (if employeeId \<notin> set l then l @ [employeeId] else l)"
    and s1: "s1 = s0\<lparr>tasks := (tasks s0)(taskId \<mapsto> t1)\<rparr>"
    by (auto simp: l_def t1_def)
  from gate_holds_id [OF g] have ok: "id_ok employeeId" and ne: "employeeId \<noteq> []" by auto
  from csvToArray_push [OF ok, of "t_done_by t0"] ne
  have rt: "csvToArray (Some (arrayToCsv l1)) = l1" by (auto simp: l1 l_def split: if_splits)
  have mem: "employeeId \<in> set l1" by (simp add: l1)
  have t1s: "tasks s1 taskId = Some t1" by (simp add: s1)
  from g t0 have g1: "gate_holds taskId employeeId s1"
    by (simp add: gate_holds_def s1 t1_def)
  have m: "employeeId \<in> set (csvToArray (t_done_by t1))" using rt mem by (simp add: t1_def)
  have l: "csvToArray (t_done_by t1) = l1" using rt by (simp add: t1_def)
  have eq: "t1\<lparr>t_done_by := Some (arrayToCsv l1), t_done_at := Some now2, t_status := ''completed''\<rparr>
            = t1\<lparr>t_done_at := Some now2\<rparr>"
    by (cases t0) (simp add: t1_def)
  from doneTask_allowed [OF g1 t1s, of now2] m
  have d: "doneTask now2 taskId employeeId s1 =
          (Inr l1, s1\<lparr>tasks := (tasks s1)(taskId \<mapsto> t1\<lparr>t_done_at := Some now2\<rparr>)\<rparr>)"
    by (simp only: l eq if_False simp_thms)
  from t1s m d show ?thesis by blast
qed

theorem doneTask_again_witness:
  "doneTask 2000 ''TASK1'' ''emp1'' store2 = (Inr [''emp1''], store3) \<and>
   doneTask 3000 ''TASK1'' ''emp1'' store3 =
     (Inr [''emp1''],
      store3\<lparr>tasks := (tasks store3)(''TASK1'' \<mapsto> task_done\<lparr>t_done_at := Some 3000\<rparr>)\<rparr>)"
proof -
  from doneTask_again [OF doneTask_store2, of 3000] obtain t1 where
    "tasks store3 ''TASK1'' = Some t1"
    "doneTask 3000 ''TASK1'' ''emp1'' store3 =
       (Inr [''emp1''], store3\<lparr>tasks := (tasks store3)(''TASK1'' \<mapsto> t1\<lparr>t_done_at := Some 3000\<rparr>)\<rparr>)"
    by blast
  moreover have "tasks store3 ''TASK1'' = Some task_done" by (simp add: store3_def)
  ultimately show ?thesis using doneTask_store2 by simp
qed

text \<open>
  C6 as stated fails. The employee is in \<open>done_by\<close> of a task marked done at time 2000; a
  second call at time 3000 is not refused and stores 3000 as \<open>done_at\<close>: the stored task
  has changed.
\<close>

theorem doneTask_again_counterexample:
  "csvToArray (t_done_by task_done) = [''emp1''] \<and>
   tasks store3 ''TASK1'' = Some task_done \<and>
   doneTask 3000 ''TASK1'' ''emp1'' store3 =
     (Inr [''emp1''], store3\<lparr>tasks := [''TASK1'' \<mapsto> task_done\<lparr>t_done_at := Some 3000\<rparr>]\<rparr>) \<and>
   t_done_at (task_done\<lparr>t_done_at := Some 3000\<rparr>) \<noteq> t_done_at task_done"
  by (simp add: doneTask_def canMarkTaskDone_def store3_def task_done_def row_d12_def Let_def
        arrayToCsv_def csvToArray_def trim_def is_space_def)




end
